theory Spec2Isabelle
  imports Main "HOL-Library.AList"
begin

section \<open>Values, dictionaries and errors\<close>

text \<open>
  The facade of \<^verbatim>\<open>sqla_wrapper/main.py\<close> moves Python values between dictionaries.
  A value is one of the kinds the options and keyword arguments carry; an engine handle
  is an opaque object of the ORM library, of type \<open>'e\<close>.
\<close>

datatype 'e pyval = PyNone | PyBool bool | PyInt int | PyStr string | PyEngine 'e

text \<open>
  A Python \<^verbatim>\<open>dict\<close> keeps its keys in insertion order: an association list, read with
  \<open>map_of\<close>, written with \<open>AList.update\<close> (a new key goes to the end, an old key keeps
  its place), a key removed with \<open>AList.delete\<close>.
\<close>

type_synonym 'e options = "(string \<times> 'e pyval) list"

text \<open>\<^verbatim>\<open>d.setdefault(k, v)\<close>: the key is added only when it is absent.\<close>

definition setdefault :: "'k \<Rightarrow> 'v \<Rightarrow> ('k \<times> 'v) list \<Rightarrow> ('k \<times> 'v) list" where
  "setdefault k v d = (case map_of d k of None \<Rightarrow> d @ [(k, v)] | Some w \<Rightarrow> d)"

text \<open>\<^verbatim>\<open>d.update(**kw)\<close>: every pair of \<open>kw\<close> is stored, in order.\<close>

definition dict_update :: "('k \<times> 'v) list \<Rightarrow> ('k \<times> 'v) list \<Rightarrow> ('k \<times> 'v) list" where
  "dict_update d kw = fold (\<lambda>(k, v). AList.update k v) kw d"

text \<open>
  The exceptions. \<open>AttributeError\<close>, \<open>KeyError\<close> (with the missing key) and \<open>TypeError\<close>
  are raised by the Python of the facade itself; \<open>LibraryError\<close> is an exception of the
  ORM library, passed through with its class name. \<open>ConfigurationError\<close> is the error
  kind the specification names for a missing databases mapping; it is here so that the
  results of the constructor can be compared with it. \<open>UnknownEngineError\<close> is the
  error kind the specification gives the routing policy.
\<close>

datatype 'e error =
    AttributeError
  | KeyError "'e pyval"
  | TypeError
  | ConfigurationError
  | UnknownEngineError string
  | LibraryError string

section \<open>Session options and engine options\<close>

text \<open>
  \<^verbatim>\<open>_set_session_options\<close>, lines 90 to 102. \<^verbatim>\<open>get_cls_kwargs(Session)\<close> is a set of
  argument names computed by the ORM library; it is the parameter \<open>cls_kwargs\<close>, in the
  order the loop visits it. The loop pops every such name out of \<open>options\<close>.
\<close>

fun pop_session_args ::
  "string list \<Rightarrow> 'e options \<Rightarrow> 'e options \<Rightarrow> 'e options \<times> 'e options" where
  "pop_session_args [] options session_options = (options, session_options)"
| "pop_session_args (arg # rest) options session_options =
     (case map_of options arg of
        Some v \<Rightarrow>
          pop_session_args rest (AList.delete arg options) (AList.update arg v session_options)
      | None \<Rightarrow> pop_session_args rest options session_options)"

text \<open>The result is the pair \<open>(engine_options, session_options)\<close> the method stores.\<close>

definition set_session_options :: "string list \<Rightarrow> 'e options \<Rightarrow> 'e options \<times> 'e options" where
  "set_session_options cls_kwargs options =
     (let (options1, session_options) = pop_session_args cls_kwargs options [];
          engine_options = setdefault ''echo'' (PyBool False) options1;
          session_options1 = setdefault ''autoflush'' (PyBool True) session_options;
          session_options2 = setdefault ''autocommit'' (PyBool False) session_options1
      in (engine_options, session_options2))"

section \<open>The scoped session\<close>

text \<open>
  \<^verbatim>\<open>scoped_session\<close> and \<^verbatim>\<open>sessionmaker\<close> belong to the ORM library. A session is
  identified by a serial number and remembers the options its constructor received; a
  scope key stands for the value of \<^verbatim>\<open>scopefunc()\<close> in the calling context.
\<close>

type_synonym scope_key = nat

record 'e routed_session =
  sid :: nat
  local_kw :: "'e options"

record 'e scoped_session =
  factory_kw :: "'e options"
  cache :: "scope_key \<rightharpoonup> 'e routed_session"
  next_sid :: nat

text \<open>
  Modelled from the spec: the session factory of section 4.3 (the library classes
  \<^verbatim>\<open>scoped_session\<close> and \<^verbatim>\<open>sessionmaker\<close> are not in the source tree).
  \<open>get_or_create\<close> returns the cached session of the scope or creates one with the
  configured options; \<open>scoped_remove\<close> evicts the session of the scope and is a no-op
  without one; \<open>scoped_configure\<close> merges options into the ones the factory gives to the
  sessions it creates from then on.
\<close>

definition get_or_create ::
  "scope_key \<Rightarrow> 'e scoped_session \<Rightarrow> 'e routed_session \<times> 'e scoped_session" where
  "get_or_create key ss =
     (case cache ss key of
        Some s \<Rightarrow> (s, ss)
      | None \<Rightarrow>
          (let s = \<lparr>sid = next_sid ss, local_kw = factory_kw ss\<rparr>
           in (s, ss\<lparr>cache := (cache ss)(key \<mapsto> s), next_sid := Suc (next_sid ss)\<rparr>)))"

definition scoped_remove :: "scope_key \<Rightarrow> 'e scoped_session \<Rightarrow> 'e scoped_session" where
  "scoped_remove key ss = ss\<lparr>cache := (cache ss)(key := None)\<rparr>"

definition scoped_configure :: "'e options \<Rightarrow> 'e scoped_session \<Rightarrow> 'e scoped_session" where
  "scoped_configure opts ss = ss\<lparr>factory_kw := dict_update (factory_kw ss) opts\<rparr>"

section \<open>The facade\<close>

text \<open>
  The calls the facade makes to the ORM library are recorded, in order, in a trace, so
  that what is passed to the library and when can be stated.
\<close>

datatype 'e call =
    is_CreateEngine: CreateEngine string "'e options"
  | MetadataCreateAll "'e pyval list" "'e options"
  | MetadataDropAll "'e pyval list" "'e options"
  | SessionRemove scope_key
  | SessionConfigure "'e options"

text \<open>
  The attributes of \<^verbatim>\<open>SQLAlchemy\<close> that the operations below read or write;
  \<open>u_session\<close> is \<^verbatim>\<open>self._session\<close>. The declarative base (line 80) and the re-export
  of the library's names (line 88) are delegation to the library and touch none of them.
\<close>

record 'e facade =
  databases :: "(string \<times> string) list"
  engine_options :: "'e options"
  session_options :: "'e options"
  engines :: "(string \<times> 'e) list"
  u_session :: "'e scoped_session"
  trace :: "'e call list"

text \<open>
  Line 83, the dictionary comprehension over \<^verbatim>\<open>self.databases.items()\<close>:
  \<^verbatim>\<open>sa.create_engine\<close> is the parameter \<open>create_engine\<close>, which returns a handle or
  raises a library exception; the first exception ends the construction.
\<close>

fun create_engines ::
  "(string \<Rightarrow> 'e options \<Rightarrow> string + 'e) \<Rightarrow> 'e options \<Rightarrow> (string \<times> string) list \<Rightarrow>
   (string \<times> 'e) list \<Rightarrow> 'e call list \<Rightarrow> string + ((string \<times> 'e) list \<times> 'e call list)" where
  "create_engines create_engine eo [] engs tr = Inr (engs, tr)"
| "create_engines create_engine eo ((k, v) # items) engs tr =
     (case create_engine v eo of
        Inl x \<Rightarrow> Inl x
      | Inr e \<Rightarrow>
          create_engines create_engine eo items (AList.update k e engs)
            (tr @ [CreateEngine v eo]))"

text \<open>
  \<^verbatim>\<open>__init__\<close>, lines 69 to 88. \<open>databases\<close> is \<open>None\<close> when the argument is left out
  (its default is \<^verbatim>\<open>None\<close>); then \<^verbatim>\<open>self.databases.items()\<close> raises
  \<^verbatim>\<open>AttributeError\<close>, after the options have been split.
\<close>

definition init ::
  "(string \<Rightarrow> 'e options \<Rightarrow> string + 'e) \<Rightarrow> string list \<Rightarrow> (string \<times> string) list option \<Rightarrow>
   'e options \<Rightarrow> 'e error + 'e facade" where
  "init create_engine cls_kwargs dbs options =
     (let (eo, so) = set_session_options cls_kwargs options
      in case dbs of
           None \<Rightarrow> Inl AttributeError
         | Some items \<Rightarrow>
             (case create_engines create_engine eo items [] [] of
                Inl x \<Rightarrow> Inl (LibraryError x)
              | Inr (engs, tr) \<Rightarrow>
                  Inr \<lparr>databases = items, engine_options = eo, session_options = so,
                       engines = engs,
                       u_session = \<lparr>factory_kw = so, cache = Map.empty, next_sid = 0\<rparr>,
                       trace = tr\<rparr>))"

text \<open>\<^verbatim>\<open>self.engines[engine]\<close>: the keys of the registry are strings.\<close>

fun engines_getitem :: "(string \<times> 'e) list \<Rightarrow> 'e pyval \<Rightarrow> 'e error + 'e" where
  "engines_getitem engs (PyStr n) =
     (case map_of engs n of None \<Rightarrow> Inl (KeyError (PyStr n)) | Some e \<Rightarrow> Inr e)"
| "engines_getitem engs v = Inl (KeyError v)"

text \<open>
  The signature \<^verbatim>\<open>(self, engine='default', *args, **kwargs)\<close> of \<^verbatim>\<open>create_all\<close> and
  \<^verbatim>\<open>drop_all\<close>, applied to the positional and keyword arguments of a call: the first
  positional argument is \<open>engine\<close>, the others are \<open>args\<close>; without a positional argument
  \<open>engine\<close> is the keyword of that name or the default; giving it twice is a
  \<^verbatim>\<open>TypeError\<close>.
\<close>

definition bind_engine_arg ::
  "'e pyval list \<Rightarrow> 'e options \<Rightarrow> 'e error + ('e pyval \<times> 'e pyval list \<times> 'e options)" where
  "bind_engine_arg pos kwds =
     (case pos of
        [] \<Rightarrow>
          (case map_of kwds ''engine'' of
             None \<Rightarrow> Inr (PyStr ''default'', [], kwds)
           | Some v \<Rightarrow> Inr (v, [], AList.delete ''engine'' kwds))
      | p # ps \<Rightarrow>
          (case map_of kwds ''engine'' of
             None \<Rightarrow> Inr (p, ps, kwds)
           | Some v \<Rightarrow> Inl TypeError))"

text \<open>
  \<^verbatim>\<open>create_all\<close> (lines 118 to 122) and \<^verbatim>\<open>drop_all\<close> (lines 124 to 128). The
  parameter \<open>metadata\<close> is the outcome of the library's schema executor on a call: \<open>None\<close>
  when it returns, the exception's name when it raises. The result is the exception the
  method raises, if any, and the facade afterwards.
\<close>

definition create_all ::
  "('e call \<Rightarrow> string option) \<Rightarrow> 'e facade \<Rightarrow> 'e pyval list \<Rightarrow> 'e options \<Rightarrow>
   'e error option \<times> 'e facade" where
  "create_all metadata self pos kwds =
     (case bind_engine_arg pos kwds of
        Inl err \<Rightarrow> (Some err, self)
      | Inr (engine, args, kwargs) \<Rightarrow>
          (case engines_getitem (engines self) engine of
             Inl err \<Rightarrow> (Some err, self)
           | Inr e \<Rightarrow>
               (let kwargs1 = setdefault ''bind'' (PyEngine e) kwargs;
                    c = MetadataCreateAll args kwargs1
                in (map_option LibraryError (metadata c),
                    self\<lparr>trace := trace self @ [c]\<rparr>))))"

definition drop_all ::
  "('e call \<Rightarrow> string option) \<Rightarrow> 'e facade \<Rightarrow> 'e pyval list \<Rightarrow> 'e options \<Rightarrow>
   'e error option \<times> 'e facade" where
  "drop_all metadata self pos kwds =
     (case bind_engine_arg pos kwds of
        Inl err \<Rightarrow> (Some err, self)
      | Inr (engine, args, kwargs) \<Rightarrow>
          (case engines_getitem (engines self) engine of
             Inl err \<Rightarrow> (Some err, self)
           | Inr e \<Rightarrow>
               (let kwargs1 = setdefault ''bind'' (PyEngine e) kwargs;
                    c = MetadataDropAll args kwargs1
                in (map_option LibraryError (metadata c),
                    self\<lparr>trace := trace self @ [c]\<rparr>))))"

text \<open>
  \<^verbatim>\<open>reconfigure\<close>, lines 130 to 134, called in the scope \<open>key\<close>: remove, update,
  configure, in that order.
\<close>

definition reconfigure :: "scope_key \<Rightarrow> 'e facade \<Rightarrow> 'e options \<Rightarrow> 'e facade" where
  "reconfigure key self kwargs =
     (let s1 = scoped_remove key (u_session self);
          so = dict_update (session_options self) kwargs;
          s2 = scoped_configure so s1
      in self\<lparr>session_options := so, u_session := s2,
              trace := trace self @ [SessionRemove key, SessionConfigure so]\<rparr>)"

text \<open>
  Modelled from the spec: the session passthroughs of the facade (the class
  \<^verbatim>\<open>SessionProxy\<close> of \<^verbatim>\<open>session_proxy.py\<close> is not in the source tree). Section 2:
  the facade forwards to the currently scoped session; \<open>f\<close> is what the forwarded method
  (query, add, commit and the others) does to that session. \<open>session_remove\<close> is the
  passthrough of the removal operation.
\<close>

definition session_passthrough ::
  "scope_key \<Rightarrow> ('e routed_session \<Rightarrow> 'e routed_session) \<Rightarrow> 'e facade \<Rightarrow> 'e facade" where
  "session_passthrough key f self =
     (let (s, ss) = get_or_create key (u_session self)
      in self\<lparr>u_session := ss\<lparr>cache := (cache ss)(key \<mapsto> f s)\<rparr>\<rparr>)"

definition session_remove :: "scope_key \<Rightarrow> 'e facade \<Rightarrow> 'e facade" where
  "session_remove key self = self\<lparr>u_session := scoped_remove key (u_session self)\<rparr>"

section \<open>The routing policy\<close>



text \<open>
  An engine constructor that accepts every URI and returns the URI as the handle, a
  schema executor that always returns, and the argument names of the library's session
  constructor that matter below; they are the concrete parameters of the examples.
\<close>

definition uri_engine :: "string \<Rightarrow> string options \<Rightarrow> string + string" where
  "uri_engine uri eo = Inr uri"

definition metadata_ok :: "string call \<Rightarrow> string option" where
  "metadata_ok c = None"

definition session_kwargs :: "string list" where
  "session_kwargs = [''bind'', ''autoflush'', ''expire_on_commit'', ''autocommit'', ''twophase'']"

text \<open>
  The facade built from two databases and no options, written out; it is the state of
  the examples.
\<close>

definition example_databases :: "(string \<times> string) list" where
  "example_databases = [(''default'', ''sqlite://''), (''replica'', ''pg://r'')]"

definition example_facade :: "string facade" where
  "example_facade =
     \<lparr>databases = example_databases,
      engine_options = [(''echo'', PyBool False)],
      session_options = [(''autoflush'', PyBool True), (''autocommit'', PyBool False)],
      engines = [(''default'', ''sqlite://''), (''replica'', ''pg://r'')],
      u_session =
        \<lparr>factory_kw = [(''autoflush'', PyBool True), (''autocommit'', PyBool False)],
         cache = Map.empty, next_sid = 0\<rparr>,
      trace =
        [CreateEngine ''sqlite://'' [(''echo'', PyBool False)],
         CreateEngine ''pg://r'' [(''echo'', PyBool False)]]\<rparr>"

section \<open>Properties of the dictionary operations\<close>

lemma map_of_setdefault:
  "map_of (setdefault k v d) k' =
     (if k' = k \<and> map_of d k = None then Some v else map_of d k')"
  by (auto simp: setdefault_def map_add_def split: option.splits)

lemma map_of_dict_update:
  "map_of (dict_update d kw) k =
     (case map_of (rev kw) k of Some v \<Rightarrow> Some v | None \<Rightarrow> map_of d k)"
  unfolding dict_update_def
proof (induction kw arbitrary: d)
  case Nil
  show ?case by simp
next
  case (Cons p kw)
  obtain a b where p: "p = (a, b)" by (cases p)
  show ?case
    by (simp add: p Cons.IH update_conv' map_add_def split: option.splits)
qed

lemma map_of_pop_options:
  "map_of (fst (pop_session_args args opts s)) k =
     (if k \<in> set args then None else map_of opts k)"
proof (induction args arbitrary: opts s)
  case Nil
  show ?case by simp
next
  case (Cons a args)
  show ?case
    by (cases "map_of opts a") (auto simp: Cons.IH delete_conv')
qed

lemma map_of_pop_session:
  "map_of (snd (pop_session_args args opts s)) k =
     (if k \<in> set args
      then (case map_of opts k of Some v \<Rightarrow> Some v | None \<Rightarrow> map_of s k)
      else map_of s k)"
proof (induction args arbitrary: opts s)
  case Nil
  show ?case by simp
next
  case (Cons a args)
  show ?case
    by (cases "map_of opts a")
       (auto simp: Cons.IH delete_conv' update_conv' split: option.splits)
qed

lemma map_of_engine_options:
  "map_of (fst (set_session_options sk opts)) k =
     (if k = ''echo'' \<and> (''echo'' \<in> set sk \<or> map_of opts ''echo'' = None) then Some (PyBool False)
      else if k \<in> set sk then None else map_of opts k)"
  by (simp add: set_session_options_def Let_def split_beta map_of_setdefault map_of_pop_options)

lemma map_of_session_options:
  "map_of (snd (set_session_options sk opts)) k =
     (case (if k \<in> set sk then map_of opts k else None) of
        Some v \<Rightarrow> Some v
      | None \<Rightarrow>
          if k = ''autoflush'' then Some (PyBool True)
          else if k = ''autocommit'' then Some (PyBool False) else None)"
  by (simp add: set_session_options_def Let_def split_beta map_of_setdefault map_of_pop_session
      split: option.splits)




lemma init_options:
  "init ce sk dbs opts = Inr st \<Longrightarrow>
     engine_options st = fst (set_session_options sk opts)
   \<and> session_options st = snd (set_session_options sk opts)"
  by (auto simp: init_def split_beta split: option.splits sum.splits)


lemma init_example:
  "init uri_engine session_kwargs (Some example_databases) [] = Inr example_facade"
  by (simp add: init_def set_session_options_def setdefault_def session_kwargs_def
      uri_engine_def example_databases_def example_facade_def)

section \<open>Construction\<close>




section \<open>The split of the options\<close>

text \<open>
  C4: every key of the options that the session constructor accepts goes to the session
  options with its value, every other key goes to the engine options, the engine options
  get \<open>echo = False\<close> when \<open>echo\<close> was not supplied, and no key is in both sets. The
  last part is about the library's session constructor: it accepts \<open>autoflush\<close> and
  \<open>autocommit\<close> and does not accept \<open>echo\<close>.
\<close>

theorem set_session_options_split:
  "(\<forall>k v. k \<in> set sk \<and> map_of opts k = Some v \<longrightarrow>
       map_of (snd (set_session_options sk opts)) k = Some v)
   \<and> (\<forall>k v. k \<notin> set sk \<and> map_of opts k = Some v \<longrightarrow>
       map_of (fst (set_session_options sk opts)) k = Some v)
   \<and> (map_of opts ''echo'' = None \<longrightarrow>
       map_of (fst (set_session_options sk opts)) ''echo'' = Some (PyBool False))
   \<and> (''echo'' \<notin> set sk \<and> ''autoflush'' \<in> set sk \<and> ''autocommit'' \<in> set sk \<longrightarrow>
       fst ` set (fst (set_session_options sk opts))
         \<inter> fst ` set (snd (set_session_options sk opts)) = {})"
proof -
  let ?eo = "fst (set_session_options sk opts)" and ?so = "snd (set_session_options sk opts)"
  have a: "\<forall>k v. k \<in> set sk \<and> map_of opts k = Some v \<longrightarrow> map_of ?so k = Some v"
    by (simp add: map_of_session_options)
  have b: "\<forall>k v. k \<notin> set sk \<and> map_of opts k = Some v \<longrightarrow> map_of ?eo k = Some v"
    by (auto simp: map_of_engine_options)
  have c: "map_of opts ''echo'' = None \<longrightarrow> map_of ?eo ''echo'' = Some (PyBool False)"
    by (simp add: map_of_engine_options)
  have d: "fst ` set ?eo \<inter> fst ` set ?so = {}"
    if h: "''echo'' \<notin> set sk \<and> ''autoflush'' \<in> set sk \<and> ''autocommit'' \<in> set sk"
  proof -
    have "dom (map_of ?eo) \<inter> dom (map_of ?so) = {}"
    proof (rule ccontr)
      assume "dom (map_of ?eo) \<inter> dom (map_of ?so) \<noteq> {}"
      then obtain k x y where e: "map_of ?eo k = Some x" and s: "map_of ?so k = Some y"
        by auto
      from s h have "k \<in> set sk"
        by (auto simp: map_of_session_options split: if_splits option.splits)
      with e h show False
        by (auto simp: map_of_engine_options split: if_splits)
    qed
    then show ?thesis by (simp add: dom_map_of_conv_image_fst)
  qed
  from a b c d show ?thesis by blast
qed

theorem set_session_options_split_witness:
  "''autoflush'' \<in> set session_kwargs
   \<and> map_of [(''autoflush'', PyBool False), (''pool_size'', PyInt 5)] ''autoflush''
       = Some (PyBool False)
   \<and> map_of (snd (set_session_options session_kwargs
         [(''autoflush'', PyBool False), (''pool_size'', PyInt 5)])) ''autoflush''
       = Some (PyBool False)
   \<and> ''pool_size'' \<notin> set session_kwargs
   \<and> map_of (fst (set_session_options session_kwargs
         [(''autoflush'', PyBool False), (''pool_size'', PyInt 5)])) ''pool_size''
       = Some (PyInt 5)
   \<and> map_of (fst (set_session_options session_kwargs
         [(''autoflush'', PyBool False), (''pool_size'', PyInt 5)])) ''echo''
       = Some (PyBool False)
   \<and> ''echo'' \<notin> set session_kwargs \<and> ''autocommit'' \<in> set session_kwargs
   \<and> fst ` set (fst (set_session_options session_kwargs
         [(''autoflush'', PyBool False), (''pool_size'', PyInt 5)]))
       \<inter> fst ` set (snd (set_session_options session_kwargs
         [(''autoflush'', PyBool False), (''pool_size'', PyInt 5)])) = {}"
  using set_session_options_split
    [of session_kwargs "[(''autoflush'', PyBool False), (''pool_size'', PyInt 5)]"]
  by (simp add: session_kwargs_def set_session_options_def setdefault_def)

text \<open>
  C9: the stored session options have \<open>autoflush = True\<close> and \<open>autocommit = False\<close>
  when the construction options supply neither, and a supplied value of either key is
  stored unchanged (the session constructor accepting the key).
\<close>

theorem session_option_defaults:
  assumes "init ce sk dbs opts = Inr st"
  shows "(map_of opts ''autoflush'' = None \<and> map_of opts ''autocommit'' = None \<longrightarrow>
            map_of (session_options st) ''autoflush'' = Some (PyBool True)
          \<and> map_of (session_options st) ''autocommit'' = Some (PyBool False))
       \<and> (''autoflush'' \<in> set sk \<and> map_of opts ''autoflush'' = Some v \<longrightarrow>
            map_of (session_options st) ''autoflush'' = Some v)
       \<and> (''autocommit'' \<in> set sk \<and> map_of opts ''autocommit'' = Some w \<longrightarrow>
            map_of (session_options st) ''autocommit'' = Some w)"
proof -
  from init_options[OF assms]
  have so: "session_options st = snd (set_session_options sk opts)" by simp
  show ?thesis
    by (simp add: so map_of_session_options)
qed

theorem session_option_defaults_witness:
  "init uri_engine session_kwargs (Some example_databases) [] = Inr example_facade
   \<and> map_of ([] :: string options) ''autoflush'' = None
   \<and> map_of ([] :: string options) ''autocommit'' = None
   \<and> map_of (session_options example_facade) ''autoflush'' = Some (PyBool True)
   \<and> map_of (session_options example_facade) ''autocommit'' = Some (PyBool False)
   \<and> init uri_engine session_kwargs (Some example_databases)
         [(''autoflush'', PyBool False), (''autocommit'', PyBool True)]
       = Inr (example_facade
           \<lparr>session_options := [(''autoflush'', PyBool False), (''autocommit'', PyBool True)],
            u_session :=
              \<lparr>factory_kw = [(''autoflush'', PyBool False), (''autocommit'', PyBool True)],
               cache = Map.empty, next_sid = 0\<rparr>\<rparr>)
   \<and> ''autoflush'' \<in> set session_kwargs \<and> ''autocommit'' \<in> set session_kwargs
   \<and> map_of (session_options (example_facade
           \<lparr>session_options := [(''autoflush'', PyBool False), (''autocommit'', PyBool True)],
            u_session :=
              \<lparr>factory_kw = [(''autoflush'', PyBool False), (''autocommit'', PyBool True)],
               cache = Map.empty, next_sid = 0\<rparr>\<rparr>)) ''autoflush'' = Some (PyBool False)
   \<and> map_of (session_options (example_facade
           \<lparr>session_options := [(''autoflush'', PyBool False), (''autocommit'', PyBool True)],
            u_session :=
              \<lparr>factory_kw = [(''autoflush'', PyBool False), (''autocommit'', PyBool True)],
               cache = Map.empty, next_sid = 0\<rparr>\<rparr>)) ''autocommit'' = Some (PyBool True)"
proof -
  have i: "init uri_engine session_kwargs (Some example_databases)
         [(''autoflush'', PyBool False), (''autocommit'', PyBool True)]
       = Inr (example_facade
           \<lparr>session_options := [(''autoflush'', PyBool False), (''autocommit'', PyBool True)],
            u_session :=
              \<lparr>factory_kw = [(''autoflush'', PyBool False), (''autocommit'', PyBool True)],
               cache = Map.empty, next_sid = 0\<rparr>\<rparr>)"
    by (simp add: init_def set_session_options_def setdefault_def session_kwargs_def
        uri_engine_def example_databases_def example_facade_def)
  from session_option_defaults [OF init_example]
    session_option_defaults [OF i, of "PyBool False" "PyBool True"] init_example i
  show ?thesis
    by (simp add: session_kwargs_def)
qed

section \<open>The engine registry\<close>

lemma schema_op_keeps:
  "engines (snd (create_all md st pos kwds)) = engines st"
  "databases (snd (create_all md st pos kwds)) = databases st"
  "filter is_CreateEngine (trace (snd (create_all md st pos kwds)))
     = filter is_CreateEngine (trace st)"
  "engines (snd (drop_all md st pos kwds)) = engines st"
  "databases (snd (drop_all md st pos kwds)) = databases st"
  "filter is_CreateEngine (trace (snd (drop_all md st pos kwds)))
     = filter is_CreateEngine (trace st)"
  by (simp_all add: create_all_def drop_all_def Let_def split: sum.splits prod.splits)

lemma reconfigure_keeps:
  "engines (reconfigure key st kwargs) = engines st"
  "databases (reconfigure key st kwargs) = databases st"
  "filter is_CreateEngine (trace (reconfigure key st kwargs))
     = filter is_CreateEngine (trace st)"
  by (simp_all add: reconfigure_def Let_def)



section \<open>The schema operations\<close>

lemma create_all_bound:
  "bind_engine_arg pos kwds = Inr (engine, args, kwargs) \<Longrightarrow>
   create_all md st pos kwds =
     (case engines_getitem (engines st) engine of
        Inl err \<Rightarrow> (Some err, st)
      | Inr e \<Rightarrow>
          (map_option LibraryError
             (md (MetadataCreateAll args (setdefault ''bind'' (PyEngine e) kwargs))),
           st\<lparr>trace := trace st
                 @ [MetadataCreateAll args (setdefault ''bind'' (PyEngine e) kwargs)]\<rparr>))"
  by (simp add: create_all_def Let_def split: sum.splits)

lemma drop_all_bound:
  "bind_engine_arg pos kwds = Inr (engine, args, kwargs) \<Longrightarrow>
   drop_all md st pos kwds =
     (case engines_getitem (engines st) engine of
        Inl err \<Rightarrow> (Some err, st)
      | Inr e \<Rightarrow>
          (map_option LibraryError
             (md (MetadataDropAll args (setdefault ''bind'' (PyEngine e) kwargs))),
           st\<lparr>trace := trace st
                 @ [MetadataDropAll args (setdefault ''bind'' (PyEngine e) kwargs)]\<rparr>))"
  by (simp add: drop_all_def Let_def split: sum.splits)

text \<open>
  C3: called with an engine name that is not a key of the registry, \<open>create_all\<close> and
  \<open>drop_all\<close> raise \<open>KeyError\<close> with that name and do nothing else: the facade is
  unchanged and the schema executor is not called. Called with a registered name they do
  not raise \<open>KeyError\<close>.
\<close>

theorem schema_op_unknown_engine:
  assumes "bind_engine_arg pos kwds = Inr (PyStr n, args, kwargs)"
  shows "(map_of (engines st) n = None \<longrightarrow>
            create_all md st pos kwds = (Some (KeyError (PyStr n)), st)
          \<and> drop_all md st pos kwds = (Some (KeyError (PyStr n)), st))
       \<and> (map_of (engines st) n \<noteq> None \<longrightarrow>
            fst (create_all md st pos kwds) \<noteq> Some (KeyError k)
          \<and> fst (drop_all md st pos kwds) \<noteq> Some (KeyError k))"
  by (auto simp: create_all_bound[OF assms] drop_all_bound[OF assms])

theorem schema_op_unknown_engine_witness:
  "bind_engine_arg [PyStr ''nowhere''] ([] :: string options)
       = Inr (PyStr ''nowhere'', [], [])
   \<and> map_of (engines example_facade) ''nowhere'' = None
   \<and> create_all metadata_ok example_facade [PyStr ''nowhere''] []
       = (Some (KeyError (PyStr ''nowhere'')), example_facade)
   \<and> drop_all metadata_ok example_facade [PyStr ''nowhere''] []
       = (Some (KeyError (PyStr ''nowhere'')), example_facade)
   \<and> bind_engine_arg [] [(''engine'', PyStr ''replica'' :: string pyval)]
       = Inr (PyStr ''replica'', [], [])
   \<and> map_of (engines example_facade) ''replica'' \<noteq> None
   \<and> fst (create_all metadata_ok example_facade [] [(''engine'', PyStr ''replica'')])
       \<noteq> Some (KeyError (PyStr ''replica''))
   \<and> fst (drop_all metadata_ok example_facade [] [(''engine'', PyStr ''replica'')])
       \<noteq> Some (KeyError (PyStr ''replica''))"
proof -
  have a: "bind_engine_arg [PyStr ''nowhere''] ([] :: string options)
             = Inr (PyStr ''nowhere'', [], [])"
    by (simp add: bind_engine_arg_def)
  have b: "bind_engine_arg [] [(''engine'', PyStr ''replica'' :: string pyval)]
             = Inr (PyStr ''replica'', [], [])"
    by (simp add: bind_engine_arg_def)
  have c: "map_of (engines example_facade) ''nowhere'' = None"
    by (simp add: example_facade_def)
  have d: "map_of (engines example_facade) ''replica'' = Some ''pg://r''"
    by (simp add: example_facade_def)
  from schema_op_unknown_engine [OF a, of example_facade metadata_ok]
    schema_op_unknown_engine [OF b, of example_facade metadata_ok "PyStr ''replica''"]
    a b c d
  show ?thesis
    by simp
qed


lemma bind_engine_arg_keeps_bind:
  "bind_engine_arg pos kwds = Inr (engine, args, kwargs) \<Longrightarrow>
   map_of kwargs ''bind'' = map_of kwds ''bind''"
  by (auto simp: bind_engine_arg_def delete_conv' split: list.splits option.splits)

lemma setdefault_present: "map_of d k = Some w \<Longrightarrow> setdefault k v d = d"
  by (simp add: setdefault_def)

lemma setdefault_absent: "map_of d k = None \<Longrightarrow> setdefault k v d = d @ [(k, v)]"
  by (simp add: setdefault_def)



text \<open>
  C10: a \<open>bind\<close> keyword of the caller is what the schema executor receives, whatever
  engine the name selects; without one the engine found is added as \<open>bind\<close>; and the
  name is looked up first, so that an unregistered name raises \<open>KeyError\<close> also when
  the caller passes \<open>bind\<close>.
\<close>

theorem schema_op_bind_precedence:
  assumes "bind_engine_arg pos kwds = Inr (PyStr n, args, kwargs)"
  shows "(map_of (engines st) n = Some e \<and> map_of kwds ''bind'' = Some b \<longrightarrow>
            snd (create_all md st pos kwds)
              = st\<lparr>trace := trace st @ [MetadataCreateAll args kwargs]\<rparr>
          \<and> snd (drop_all md st pos kwds)
              = st\<lparr>trace := trace st @ [MetadataDropAll args kwargs]\<rparr>
          \<and> map_of kwargs ''bind'' = Some b)
       \<and> (map_of (engines st) n = Some e \<and> map_of kwds ''bind'' = None \<longrightarrow>
            snd (create_all md st pos kwds)
              = st\<lparr>trace := trace st
                     @ [MetadataCreateAll args (kwargs @ [(''bind'', PyEngine e)])]\<rparr>
          \<and> snd (drop_all md st pos kwds)
              = st\<lparr>trace := trace st
                     @ [MetadataDropAll args (kwargs @ [(''bind'', PyEngine e)])]\<rparr>)
       \<and> (map_of (engines st) n = None \<longrightarrow>
            create_all md st pos kwds = (Some (KeyError (PyStr n)), st)
          \<and> drop_all md st pos kwds = (Some (KeyError (PyStr n)), st))"
proof -
  note kb = bind_engine_arg_keeps_bind[OF assms]
  show ?thesis
    by (auto simp: create_all_bound[OF assms] drop_all_bound[OF assms] kb
        setdefault_present setdefault_absent)
qed

theorem schema_op_bind_precedence_witness:
  "bind_engine_arg [PyStr ''replica''] [(''bind'', PyEngine ''other'')]
     = Inr (PyStr ''replica'', [], [(''bind'', PyEngine ''other'')])
   \<and> map_of (engines example_facade) ''replica'' = Some ''pg://r''
   \<and> map_of [(''bind'', PyEngine ''other'')] ''bind'' = Some (PyEngine ''other'')
   \<and> snd (create_all metadata_ok example_facade [PyStr ''replica'']
            [(''bind'', PyEngine ''other'')])
       = example_facade\<lparr>trace := trace example_facade
           @ [MetadataCreateAll [] [(''bind'', PyEngine ''other'')]]\<rparr>
   \<and> bind_engine_arg [PyStr ''replica''] ([] :: string options)
       = Inr (PyStr ''replica'', [], [])
   \<and> snd (drop_all metadata_ok example_facade [PyStr ''replica''] [])
       = example_facade\<lparr>trace := trace example_facade
           @ [MetadataDropAll [] [(''bind'', PyEngine ''pg://r'')]]\<rparr>
   \<and> bind_engine_arg [PyStr ''nowhere''] [(''bind'', PyEngine ''other'')]
       = Inr (PyStr ''nowhere'', [], [(''bind'', PyEngine ''other'')])
   \<and> map_of (engines example_facade) ''nowhere'' = None
   \<and> create_all metadata_ok example_facade [PyStr ''nowhere'']
         [(''bind'', PyEngine ''other'')]
       = (Some (KeyError (PyStr ''nowhere'')), example_facade)"
proof -
  have a: "bind_engine_arg [PyStr ''replica''] [(''bind'', PyEngine ''other'')]
             = Inr (PyStr ''replica'', [], [(''bind'', PyEngine ''other'' :: string pyval)])"
    by (simp add: bind_engine_arg_def)
  have b: "bind_engine_arg [PyStr ''replica''] ([] :: string options)
             = Inr (PyStr ''replica'', [], [])"
    by (simp add: bind_engine_arg_def)
  have c: "bind_engine_arg [PyStr ''nowhere''] [(''bind'', PyEngine ''other'')]
             = Inr (PyStr ''nowhere'', [], [(''bind'', PyEngine ''other'' :: string pyval)])"
    by (simp add: bind_engine_arg_def)
  have r: "map_of (engines example_facade) ''replica'' = Some ''pg://r''"
    by (simp add: example_facade_def)
  have u: "map_of (engines example_facade) ''nowhere'' = None"
    by (simp add: example_facade_def)
  from schema_op_bind_precedence
         [OF a, of example_facade "''pg://r''" "PyEngine ''other''" metadata_ok]
    schema_op_bind_precedence [OF b, of example_facade "''pg://r''" _ metadata_ok]
    schema_op_bind_precedence [OF c, of example_facade _ _ metadata_ok]
    a b c r u
  show ?thesis
    by simp
qed

text \<open>
  C8: \<open>create_all\<close>, \<open>drop_all\<close>, \<open>reconfigure\<close> and the session passthroughs leave the
  engines mapping and the databases mapping as they are, whether they return or raise.
\<close>

theorem registry_read_only:
  "engines (snd (create_all md st pos kwds)) = engines st
   \<and> databases (snd (create_all md st pos kwds)) = databases st
   \<and> engines (snd (drop_all md st pos kwds)) = engines st
   \<and> databases (snd (drop_all md st pos kwds)) = databases st
   \<and> engines (reconfigure key st kwargs) = engines st
   \<and> databases (reconfigure key st kwargs) = databases st
   \<and> engines (session_passthrough key f st) = engines st
   \<and> databases (session_passthrough key f st) = databases st
   \<and> engines (session_remove key st) = engines st
   \<and> databases (session_remove key st) = databases st"
  by (simp add: schema_op_keeps reconfigure_keeps session_passthrough_def session_remove_def
      split_beta)

section \<open>Reconfiguration\<close>


lemma map_of_rev_distinct: "distinct (map fst xs) \<Longrightarrow> map_of (rev xs) k = map_of xs k"
proof (induction xs)
  case Nil
  show ?case by simp
next
  case (Cons p xs)
  obtain a b where p: "p = (a, b)" by (cases p)
  from Cons.prems have "a \<notin> fst ` set xs" and d: "distinct (map fst xs)"
    by (simp_all add: p)
  then have "map_of xs a = None"
    by (simp add: map_of_eq_None_iff)
  with Cons.IH[OF d] show ?case
    by (auto simp: p map_add_def split: option.splits)
qed

lemma map_of_dict_update_distinct:
  "distinct (map fst kw) \<Longrightarrow>
   map_of (dict_update d kw) k =
     (case map_of kw k of Some v \<Rightarrow> Some v | None \<Rightarrow> map_of d k)"
  by (simp add: map_of_dict_update map_of_rev_distinct)

lemma distinct_dict_update:
  "distinct (map fst d) \<Longrightarrow> distinct (map fst (dict_update d kw))"
  unfolding dict_update_def
proof (induction kw arbitrary: d)
  case Nil
  then show ?case by simp
next
  case (Cons p kw)
  obtain a b where p: "p = (a, b)" by (cases p)
  from Cons.prems have "distinct (map fst (AList.update a b d))"
    by (rule distinct_update)
  from Cons.IH[OF this] show ?case by (simp add: p)
qed

lemma distinct_setdefault:
  "distinct (map fst d) \<Longrightarrow> distinct (map fst (setdefault k v d))"
  by (auto simp: setdefault_def map_of_eq_None_iff split: option.splits)

lemma distinct_pop_session:
  "distinct (map fst s) \<Longrightarrow> distinct (map fst (snd (pop_session_args args opts s)))"
proof (induction args arbitrary: opts s)
  case Nil
  then show ?case by simp
next
  case (Cons a args)
  then show ?case
    by (cases "map_of opts a") (simp_all add: distinct_update)
qed

lemma init_session_options_distinct:
  "init ce sk dbs opts = Inr st \<Longrightarrow> distinct (map fst (session_options st))"
proof -
  assume "init ce sk dbs opts = Inr st"
  from init_options[OF this]
  have "session_options st = snd (set_session_options sk opts)" by simp
  moreover have "distinct (map fst (snd (pop_session_args sk opts [])))"
    by (rule distinct_pop_session) simp
  ultimately show ?thesis
    by (simp add: set_session_options_def Let_def split_beta distinct_setdefault)
qed

lemma reconfigure_session_options_distinct:
  "distinct (map fst (session_options st)) \<Longrightarrow>
   distinct (map fst (session_options (reconfigure key st kwargs)))"
  by (simp add: reconfigure_def Let_def distinct_dict_update)

text \<open>
  C5: \<open>reconfigure\<close>, called in a scope with keyword arguments (their names distinct),
  first removes the session of that scope, then merges the arguments into the stored
  session options, a new value replacing a stored one, then configures the session
  factory with the merged options: the library is called in that order, the scope has no
  session afterwards, and a session created afterwards has every merged option. The
  sessions of the other scopes are the ones they were.
\<close>

theorem reconfigure_merges:
  assumes "distinct (map fst kwargs)" and "distinct (map fst (session_options st))"
  shows "cache (u_session (reconfigure key st kwargs)) key = None
       \<and> map_of (session_options (reconfigure key st kwargs)) k =
           (case map_of kwargs k of Some v \<Rightarrow> Some v | None \<Rightarrow> map_of (session_options st) k)
       \<and> trace (reconfigure key st kwargs) =
           trace st @ [SessionRemove key,
                       SessionConfigure (session_options (reconfigure key st kwargs))]
       \<and> (cache (u_session (reconfigure key st kwargs)) key' = None
            \<and> map_of (session_options (reconfigure key st kwargs)) k = Some v \<longrightarrow>
          map_of (local_kw (fst (get_or_create key' (u_session (reconfigure key st kwargs))))) k
            = Some v)
       \<and> (key' \<noteq> key \<longrightarrow>
            cache (u_session (reconfigure key st kwargs)) key' = cache (u_session st) key')"
proof -
  let ?st = "reconfigure key st kwargs"
  let ?so = "dict_update (session_options st) kwargs"
  have so: "session_options ?st = ?so"
    by (simp add: reconfigure_def Let_def)
  have fk: "factory_kw (u_session ?st) = dict_update (factory_kw (u_session st)) ?so"
    by (simp add: reconfigure_def Let_def scoped_configure_def scoped_remove_def)
  have ca: "cache (u_session ?st) = (cache (u_session st))(key := None)"
    by (simp add: reconfigure_def Let_def scoped_configure_def scoped_remove_def)
  have a: "cache (u_session ?st) key = None"
    by (simp add: ca)
  have b: "map_of (session_options ?st) k =
           (case map_of kwargs k of Some v \<Rightarrow> Some v | None \<Rightarrow> map_of (session_options st) k)"
    by (simp add: so map_of_dict_update_distinct[OF assms(1)])
  have c: "trace ?st = trace st @ [SessionRemove key, SessionConfigure (session_options ?st)]"
    by (simp add: reconfigure_def Let_def)
  have d: "map_of (local_kw (fst (get_or_create key' (u_session ?st)))) k = Some v"
    if h: "cache (u_session ?st) key' = None \<and> map_of (session_options ?st) k = Some v"
  proof -
    from h have "local_kw (fst (get_or_create key' (u_session ?st))) = factory_kw (u_session ?st)"
      by (simp add: get_or_create_def Let_def)
    moreover have "distinct (map fst ?so)"
      using assms(2) by (rule distinct_dict_update)
    then have "map_of (rev ?so) k = map_of ?so k"
      by (rule map_of_rev_distinct)
    with h have "map_of (rev ?so) k = Some v"
      by (simp add: so)
    ultimately show ?thesis
      by (simp add: fk map_of_dict_update)
  qed
  have e: "key' \<noteq> key \<longrightarrow> cache (u_session ?st) key' = cache (u_session st) key'"
    by (simp add: ca)
  from a b c d e show ?thesis by blast
qed

theorem reconfigure_merges_witness:
  "distinct (map fst [(''autocommit'', PyBool True :: string pyval)])
   \<and> distinct (map fst (session_options (session_passthrough 3 id example_facade)))
   \<and> cache (u_session (session_passthrough 3 id example_facade)) 3
       = Some \<lparr>sid = 0,
               local_kw = [(''autoflush'', PyBool True), (''autocommit'', PyBool False)]\<rparr>
   \<and> cache (u_session (reconfigure 3 (session_passthrough 3 id example_facade)
         [(''autocommit'', PyBool True)])) 3 = None
   \<and> map_of (session_options (reconfigure 3 (session_passthrough 3 id example_facade)
         [(''autocommit'', PyBool True)])) ''autocommit'' = Some (PyBool True)
   \<and> map_of (local_kw (fst (get_or_create 3
         (u_session (reconfigure 3 (session_passthrough 3 id example_facade)
            [(''autocommit'', PyBool True)]))))) ''autocommit'' = Some (PyBool True)
   \<and> trace (reconfigure 3 (session_passthrough 3 id example_facade)
         [(''autocommit'', PyBool True)])
       = trace example_facade
         @ [SessionRemove 3,
            SessionConfigure [(''autoflush'', PyBool True), (''autocommit'', PyBool True)]]"
proof -
  have a: "distinct (map fst [(''autocommit'', PyBool True :: string pyval)])"
    by simp
  have b: "distinct (map fst (session_options (session_passthrough 3 id example_facade)))"
    by (simp add: session_passthrough_def split_beta example_facade_def)
  from reconfigure_merges
         [OF a b, where key = 3 and key' = 3 and k = "''autocommit''" and v = "PyBool True"]
    a b
  show ?thesis
    by (simp add: reconfigure_def session_passthrough_def get_or_create_def
        scoped_remove_def scoped_configure_def dict_update_def example_facade_def Let_def)
qed

section \<open>Routing\<close>


end
